theory Spec2Isabelle
  imports Complex_Main
begin

section \<open>Python effects: exceptions and explicit state\<close>

text \<open>
  The two notebooks are straight-line Python. Every call may raise, and some calls change
  state that outlives the call (numpy's process-wide random generator, the object behind
  a fitted model, standard output). A computation is therefore a function from the state
  before to an outcome (an exception or a value) and the state after. An exception
  stops the rest of the function body; the state reached so far is kept.
\<close>

datatype error = ValueError | KeyError | IndexError

type_synonym ('s, 'a) py = "'s \<Rightarrow> (error + 'a) \<times> 's"

definition ret :: "'a \<Rightarrow> ('s, 'a) py" where
  "ret a = (\<lambda>s. (Inr a, s))"

definition raise :: "error \<Rightarrow> ('s, 'a) py" where
  "raise e = (\<lambda>s. (Inl e, s))"

definition seq :: "('s, 'a) py \<Rightarrow> ('a \<Rightarrow> ('s, 'b) py) \<Rightarrow> ('s, 'b) py" where
  "seq m f = (\<lambda>s. case m s of (Inl e, s1) \<Rightarrow> (Inl e, s1) | (Inr a, s1) \<Rightarrow> f a s1)"

section \<open>The numpy and pandas operations used by \<open>sample_data\<close>\<close>

text \<open>
  numpy's legacy generator is not part of the repository: its two primitives are taken as
  parameters. \<open>init_genrand s\<close> is the generator state that seeding with the
  32-bit integer \<open>s\<close> produces, \<open>gauss g\<close> is one standard-normal draw from state
  \<open>g\<close> together with the state after it. Array cells are real numbers: rounding and
  overflow of 64-bit floating point are not modelled.
\<close>

record 'g generator =
  init_genrand :: "nat \<Rightarrow> 'g"
  gauss :: "'g \<Rightarrow> real \<times> 'g"

text \<open>
  The process state seen by \<open>np.random\<close>: the state of the global generator, and the
  operating system's entropy source, an unbounded supply of fresh generator states of which
  \<open>urandom_pos\<close> have been consumed.
\<close>

record 'g process =
  np_state :: "'g"
  urandom :: "nat \<Rightarrow> 'g"
  urandom_pos :: nat

text \<open>
  \<open>np.random.seed(seed)\<close>. With \<open>None\<close> the global generator is re-initialised from
  operating-system entropy. An integer seed must lie between 0 and \<open>2^32 - 1\<close>, otherwise
  numpy raises \<open>ValueError\<close> and leaves the generator alone. In both accepted cases the
  previous state of the global generator is overwritten.
\<close>

definition np_random_seed :: "'g generator \<Rightarrow> int option \<Rightarrow> ('g process, unit) py" where
  "np_random_seed np seed =
     (case seed of
        None \<Rightarrow> (\<lambda>w. (Inr (), w\<lparr>np_state := urandom w (urandom_pos w),
                                  urandom_pos := Suc (urandom_pos w)\<rparr>))
      | Some s \<Rightarrow>
          if 0 \<le> s \<and> s < 2 ^ 32
          then (\<lambda>w. (Inr (), w\<lparr>np_state := init_genrand np (nat s)\<rparr>))
          else raise ValueError)"

text \<open>The loop inside \<open>randn\<close>: \<open>k\<close> successive draws, each from the state the last left.\<close>

fun draws :: "('g \<Rightarrow> real \<times> 'g) \<Rightarrow> nat \<Rightarrow> 'g \<Rightarrow> real list \<times> 'g" where
  "draws gs 0 g = ([], g)"
| "draws gs (Suc k) g =
     (case gs g of (x, g1) \<Rightarrow> (case draws gs k g1 of (xs, g2) \<Rightarrow> (x # xs, g2)))"

text \<open>
  \<open>np.random.randn(n)\<close>: a one-dimensional array of \<open>n\<close> draws from the global generator,
  which is advanced. A negative dimension raises \<open>ValueError\<close>; \<open>n = 0\<close> gives the empty
  array.
\<close>

definition np_random_randn :: "'g generator \<Rightarrow> int \<Rightarrow> ('g process, real list) py" where
  "np_random_randn np n =
     (if n < 0 then raise ValueError
      else (\<lambda>w. case draws (gauss np) (nat n) (np_state w) of
                   (xs, g) \<Rightarrow> (Inr xs, w\<lparr>np_state := g\<rparr>)))"

text \<open>
  Array arithmetic. \<open>c * v\<close> with a Python number \<open>c\<close> scales every cell; \<open>u + v\<close> and
  \<open>u - v\<close> work cell by cell. numpy raises on operands of different lengths, where
  \<open>map2\<close> would cut the longer one: every use below is on arrays of one length
  (lemma \<open>length_vadd\<close> and its neighbours are only applied to such arrays).
\<close>

definition smul :: "real \<Rightarrow> real list \<Rightarrow> real list" where
  "smul c v = map (\<lambda>x. c * x) v"

definition vadd :: "real list \<Rightarrow> real list \<Rightarrow> real list" where
  "vadd u v = map2 (\<lambda>x y. x + y) u v"

definition vsub :: "real list \<Rightarrow> real list \<Rightarrow> real list" where
  "vsub u v = map2 (\<lambda>x y. x - y) u v"

text \<open>
  A data frame: the column names and the cells, row by row. \<open>pd.DataFrame(matrix, columns)\<close>
  raises \<open>ValueError\<close> when a row of the matrix has not one cell per column name.
  \<open>np.vstack\<close> of one-dimensional arrays makes each array a row of a matrix, and \<open>.T\<close>
  transposes it.
\<close>

record DataFrame =
  columns :: "string list"
  cells :: "real list list"

definition pd_DataFrame :: "real list list \<Rightarrow> string list \<Rightarrow> ('s, DataFrame) py" where
  "pd_DataFrame matrix names =
     (if list_all (\<lambda>r. length r = length names) matrix
      then ret \<lparr>columns = names, cells = matrix\<rparr>
      else raise ValueError)"

definition np_vstack :: "real list list \<Rightarrow> real list list" where
  "np_vstack arrays = arrays"

definition T :: "real list list \<Rightarrow> real list list" where
  "T matrix = transpose matrix"

text \<open>
  \<open>df[name]\<close>: the column called \<open>name\<close>, \<open>KeyError\<close> when there is none. \<open>len(df)\<close> is the
  number of rows.
\<close>

fun index_of :: "string list \<Rightarrow> string \<Rightarrow> nat option" where
  "index_of [] c = None"
| "index_of (x # xs) c = (if x = c then Some 0 else map_option Suc (index_of xs c))"

definition getitem :: "DataFrame \<Rightarrow> string \<Rightarrow> error + real list" where
  "getitem df c =
     (case index_of (columns df) c of
        None \<Rightarrow> Inl KeyError
      | Some j \<Rightarrow> Inr (map (\<lambda>r. r ! j) (cells df)))"

definition len :: "DataFrame \<Rightarrow> nat" where
  "len df = length (cells df)"

section \<open>The generator \<open>sample_data\<close>\<close>

text \<open>
  \<^verbatim>\<open>def sample_data(seed=None, n=10000, data_drift=False, concept_drift=False)\<close>,
  statement by statement. Each assignment draws one fresh array of \<open>n\<close> values and combines
  it with columns assigned before it.
\<close>

definition sample_data ::
  "'g generator \<Rightarrow> int option \<Rightarrow> int \<Rightarrow> bool \<Rightarrow> bool \<Rightarrow> ('g process, DataFrame) py" where
  "sample_data np seed n data_drift concept_drift =
     seq (np_random_seed np seed) (\<lambda>_.
     seq (np_random_randn np n) (\<lambda>e1. let C = e1 in
     seq (np_random_randn np n) (\<lambda>e2. let A = smul 0.8 e2 in
     seq (np_random_randn np n) (\<lambda>e3. let K = vadd A (smul 0.1 e3) in
     seq (if data_drift
          then seq (np_random_randn np n) (\<lambda>e4. ret (vadd (vsub C (smul 2 A)) (smul 2.0 e4)))
          else seq (np_random_randn np n) (\<lambda>e4. ret (vadd (vsub C (smul 2 A)) (smul 0.2 e4))))
       (\<lambda>X.
     seq (np_random_randn np n) (\<lambda>e5. let F = vadd (smul 3 X) (smul 0.8 e5) in
     seq (if concept_drift
          then seq (np_random_randn np n) (\<lambda>e6. ret (vadd (smul 2 X) (smul 0.5 e6)))
          else seq (np_random_randn np n) (\<lambda>e6. ret (vadd (smul (- 2) X) (smul 0.5 e6))))
       (\<lambda>D.
     seq (np_random_randn np n) (\<lambda>e7. let G = vadd D (smul 0.5 e7) in
     seq (np_random_randn np n) (\<lambda>e8. let Y = vadd (vsub (smul 2 K) D) (smul 0.2 e8) in
     seq (if data_drift
          then seq (np_random_randn np n) (\<lambda>e9. ret (vadd (smul 0.5 Y) (smul 1.0 e9)))
          else seq (np_random_randn np n) (\<lambda>e9. ret (vadd (smul 0.5 Y) (smul 0.1 e9))))
       (\<lambda>H.
     pd_DataFrame (T (np_vstack [C, A, K, X, F, D, G, Y, H]))
       [''C'', ''A'', ''K'', ''X'', ''F'', ''D'', ''G'', ''Y'', ''H'']))))))))))"


section \<open>The evaluation functions \<open>eval_clf\<close> and \<open>test_model\<close>\<close>

text \<open>
  Python passes objects by reference, and a method may change any object it can reach. The
  objects of the process (the estimator, the arrays behind the feature tables and the label
  arrays, the data frames, anything else a method of the estimator reaches, such as numpy's
  generator) form the heap, a value of type \<open>'h\<close> that is left open. An argument of the
  harness is a reference into the heap.

  A scikit-learn estimator is not part of the repository and is taken as a parameter: the
  record of its methods. Each method is a computation on the heap, free to change it and to
  raise. \<open>'X\<close> is the type of a reference to a feature table, \<open>'Y\<close> of a reference to a
  label array, \<open>'P\<close> the type of the new array that \<open>predict\<close> returns.
\<close>

record ('h, 'X, 'Y, 'P) estimator =
  fit :: "'X \<Rightarrow> 'Y \<Rightarrow> ('h, unit) py"
  score :: "'X \<Rightarrow> 'Y \<Rightarrow> ('h, real) py"
  predict :: "'X \<Rightarrow> ('h, 'P) py"

text \<open>
  A fitted linear model has two attributes more, \<open>intercept_\<close> and \<open>coef_\<close>, read from
  the heap.
\<close>

record ('h, 'X, 'Y, 'P) regressor = "('h, 'X, 'Y, 'P) estimator" +
  intercept :: "'h \<Rightarrow> real list"
  coef :: "'h \<Rightarrow> real list list"

text \<open>
  What an evaluation call works on: the heap, and the lines written to standard output by
  the \<open>print\<close> statements of the harness.
\<close>

record 'h session =
  heap :: "'h"
  stdout :: "string list"

definition call :: "('h, 'a) py \<Rightarrow> ('h session, 'a) py" where
  "call method = (\<lambda>w. case method (heap w) of (r, h1) \<Rightarrow> (r, w\<lparr>heap := h1\<rparr>))"

definition print :: "string \<Rightarrow> ('h session, unit) py" where
  "print line = (\<lambda>w. (Inr (), w\<lparr>stdout := stdout w @ [line]\<rparr>))"

text \<open>
  \<open>sklearn.metrics.balanced_accuracy_score(y_true, y_pred)\<close> first checks that both arrays
  have one length and raises \<open>ValueError\<close> otherwise; the mean of the per-class recalls it
  then computes is the parameter \<open>mean_recall\<close>. It changes nothing. \<open>labels h y\<close> is the
  content of the label array \<open>y\<close> in heap \<open>h\<close>; \<open>y_pred\<close> is the array just returned by
  \<open>predict\<close>.
\<close>

definition balanced_accuracy_score ::
  "('h \<Rightarrow> 'Y \<Rightarrow> 'l list) \<Rightarrow> ('l list \<Rightarrow> 'l list \<Rightarrow> error + real) \<Rightarrow> 'Y \<Rightarrow> 'l list \<Rightarrow>
   ('h, real) py" where
  "balanced_accuracy_score labels mean_recall y_true y_pred =
     (\<lambda>h. if length (labels h y_true) \<noteq> length y_pred then (Inl ValueError, h)
          else (mean_recall (labels h y_true) y_pred, h))"

text \<open>
  \<^verbatim>\<open>def eval_clf(clf, X_train, y_train, X_test, y_test)\<close>: four \<open>print\<close> statements. The
  argument of each is evaluated before the line is written, so a call that raises writes
  no line of its own, and the lines of the statements before it stay written. In the last
  two statements \<open>clf.predict\<close> runs before \<open>balanced_accuracy_score\<close> reads the labels.
  \<open>fmt3\<close> is Python's format \<open>.3f\<close>.
\<close>

definition eval_clf ::
  "('h \<Rightarrow> 'Y \<Rightarrow> 'l list) \<Rightarrow> ('l list \<Rightarrow> 'l list \<Rightarrow> error + real) \<Rightarrow> (real \<Rightarrow> string) \<Rightarrow>
   ('h, 'X, 'Y, 'l list) estimator \<Rightarrow> 'X \<Rightarrow> 'Y \<Rightarrow> 'X \<Rightarrow> 'Y \<Rightarrow> ('h session, unit) py" where
  "eval_clf labels mean_recall fmt3 clf X_train y_train X_test y_test =
     seq (call (score clf X_train y_train)) (\<lambda>a1.
     seq (print (''Accuracy on training data: '' @ fmt3 a1)) (\<lambda>_.
     seq (call (score clf X_test y_test)) (\<lambda>a2.
     seq (print (''Accuracy on test data: '' @ fmt3 a2)) (\<lambda>_.
     seq (call (predict clf X_train)) (\<lambda>p1.
     seq (call (balanced_accuracy_score labels mean_recall y_train p1)) (\<lambda>b1.
     seq (print (''Balanced accuracy on training data: '' @ fmt3 b1)) (\<lambda>_.
     seq (call (predict clf X_test)) (\<lambda>p2.
     seq (call (balanced_accuracy_score labels mean_recall y_test p2)) (\<lambda>b2.
     print (''Balanced accuracy on test data: '' @ fmt3 b2))))))))))"

text \<open>
  \<open>df[names]\<close> with a list of names: a new data frame of those columns, in the order asked
  for, \<open>KeyError\<close> when a name is no column.
\<close>

fun indices :: "string list \<Rightarrow> string list \<Rightarrow> error + nat list" where
  "indices cols [] = Inr []"
| "indices cols (c # cs) =
     (case index_of cols c of
        None \<Rightarrow> Inl KeyError
      | Some j \<Rightarrow> (case indices cols cs of Inl e \<Rightarrow> Inl e | Inr js \<Rightarrow> Inr (j # js)))"

definition getitems :: "DataFrame \<Rightarrow> string list \<Rightarrow> ('s, DataFrame) py" where
  "getitems df names =
     (case indices (columns df) names of
        Inl e \<Rightarrow> raise e
      | Inr js \<Rightarrow> ret \<lparr>columns = names, cells = map (\<lambda>r. map (\<lambda>j. r ! j) js) (cells df)\<rparr>)"

text \<open>Indexing an array, \<open>IndexError\<close> out of range; \<open>sep.join(parts)\<close>.\<close>

definition item :: "'a list \<Rightarrow> nat \<Rightarrow> ('s, 'a) py" where
  "item xs i = (if i < length xs then ret (xs ! i) else raise IndexError)"

fun join :: "string \<Rightarrow> string list \<Rightarrow> string" where
  "join sep [] = []"
| "join sep [x] = x"
| "join sep (x # y # ys) = x @ sep @ join sep (y # ys)"

text \<open>
  The list comprehension of \<open>test_model\<close>: for each \<open>i\<close> in \<open>range(len(input_vars))\<close>, in
  order, the text of \<open>lm.coef_[0, i]\<close> and of \<open>input_vars[i]\<close>.
\<close>

fun terms :: "(real \<Rightarrow> string) \<Rightarrow> real list list \<Rightarrow> string list \<Rightarrow> nat list \<Rightarrow> ('s, string list) py" where
  "terms fmt3 coef_rows input_vars [] = ret []"
| "terms fmt3 coef_rows input_vars (i # is) =
     seq (item coef_rows 0) (\<lambda>row.
     seq (item row i) (\<lambda>c.
     seq (item input_vars i) (\<lambda>v.
     seq (terms fmt3 coef_rows input_vars is) (\<lambda>rest.
     ret ((fmt3 c @ '' * '' @ v) # rest)))))"

text \<open>
  \<^verbatim>\<open>def test_model(input_vars, df_train, df_test)\<close>. \<open>df_train\<close> and \<open>df_test\<close> are
  references to data frames, and \<open>frame h df\<close> is the content of \<open>df\<close> in heap \<open>h\<close>; each
  selection \<open>df[...]\<close> reads it anew. \<open>LinearRegression()\<close> makes a new estimator object:
  the parameter \<open>LinearRegression\<close> is what the constructor does to the heap, and \<open>lm\<close> is
  the new object, the record of its methods and attributes.
\<close>

definition test_model ::
  "('h \<Rightarrow> 'D \<Rightarrow> DataFrame) \<Rightarrow> ('h, unit) py \<Rightarrow> ('h, DataFrame, DataFrame, 'P) regressor \<Rightarrow>
   (real \<Rightarrow> string) \<Rightarrow> string list \<Rightarrow> 'D \<Rightarrow> 'D \<Rightarrow> ('h session, unit) py" where
  "test_model frame LinearRegression lm fmt3 input_vars df_train df_test =
     seq (call LinearRegression) (\<lambda>_.
     seq (\<lambda>w. getitems (frame (heap w) df_train) input_vars w) (\<lambda>X1.
     seq (\<lambda>w. getitems (frame (heap w) df_train) [''Y''] w) (\<lambda>Y1.
     seq (call (fit lm X1 Y1)) (\<lambda>_.
     seq (\<lambda>w. getitems (frame (heap w) df_train) input_vars w) (\<lambda>X2.
     seq (\<lambda>w. getitems (frame (heap w) df_train) [''Y''] w) (\<lambda>Y2.
     seq (call (score lm X2 Y2)) (\<lambda>r2_train.
     seq (\<lambda>w. getitems (frame (heap w) df_test) input_vars w) (\<lambda>X3.
     seq (\<lambda>w. getitems (frame (heap w) df_test) [''Y''] w) (\<lambda>Y3.
     seq (call (score lm X3 Y3)) (\<lambda>r2_test.
     seq (\<lambda>w. item (intercept lm (heap w)) 0 w) (\<lambda>b.
     seq (\<lambda>w. terms fmt3 (coef lm (heap w)) input_vars [0..<length input_vars] w) (\<lambda>ts.
     print (''R^2 (train): '' @ fmt3 r2_train @ ''; (test): '' @ fmt3 r2_test @
            '' => Y ~ '' @ fmt3 b @ '' + '' @ join '' + '' ts)))))))))))))"

section \<open>Notions used to state the properties\<close>

text \<open>
  The noise arrays of one run. Starting from generator state \<open>g\<close>, \<open>state_after gs n j g\<close> is
  the state after \<open>j\<close> arrays of \<open>n\<close> draws each, and \<open>noise gs n g j\<close> is the array drawn
  next: \<open>noise gs n g 0\<close> is the first array of the run, \<open>noise gs n g 8\<close> the ninth.
\<close>

fun state_after :: "('g \<Rightarrow> real \<times> 'g) \<Rightarrow> nat \<Rightarrow> nat \<Rightarrow> 'g \<Rightarrow> 'g" where
  "state_after gs n 0 g = g"
| "state_after gs n (Suc j) g = snd (draws gs n (state_after gs n j g))"

definition noise :: "('g \<Rightarrow> real \<times> 'g) \<Rightarrow> nat \<Rightarrow> 'g \<Rightarrow> nat \<Rightarrow> real list" where
  "noise gs n g j = fst (draws gs n (state_after gs n j g))"

text \<open>The seeds \<open>np.random.seed\<close> accepts, and the generator state each of them installs.\<close>

definition accepted :: "int option \<Rightarrow> bool" where
  "accepted seed = (case seed of None \<Rightarrow> True | Some s \<Rightarrow> 0 \<le> s \<and> s < 2 ^ 32)"

definition seeded :: "'g generator \<Rightarrow> int option \<Rightarrow> 'g process \<Rightarrow> 'g" where
  "seeded np seed w =
     (case seed of None \<Rightarrow> urandom w (urandom_pos w) | Some s \<Rightarrow> init_genrand np (nat s))"

text \<open>
  Column \<open>c\<close> of the outcome of a call: the exception when the call raised, otherwise what
  \<open>df[c]\<close> gives on the returned table.
\<close>

definition column_of :: "error + DataFrame \<Rightarrow> string \<Rightarrow> error + real list" where
  "column_of r c = (case r of Inl e \<Rightarrow> Inl e | Inr df \<Rightarrow> getitem df c)"

text \<open>The nine column names, in the order of the returned table.\<close>

definition names9 :: "string list" where
  "names9 = [''C'', ''A'', ''K'', ''X'', ''F'', ''D'', ''G'', ''Y'', ''H'']"

text \<open>
  The nine columns as functions of the nine noise arrays \<open>e 0\<close>, ..., \<open>e 8\<close>, listed in
  the order C, A, K, X, F, D, G, Y, H. Lemma \<open>sample_data_run\<close> shows that this is what
  \<open>sample_data\<close> computes.
\<close>

definition equations :: "bool \<Rightarrow> bool \<Rightarrow> (nat \<Rightarrow> real list) \<Rightarrow> real list list" where
  "equations data_drift concept_drift e =
    (let C = e 0;
         A = smul 0.8 (e 1);
         K = vadd A (smul 0.1 (e 2));
         X = vadd (vsub C (smul 2 A)) (smul (if data_drift then 2.0 else 0.2) (e 3));
         F = vadd (smul 3 X) (smul 0.8 (e 4));
         D = vadd (smul (if concept_drift then 2 else - 2) X) (smul 0.5 (e 5));
         G = vadd D (smul 0.5 (e 6));
         Y = vadd (vsub (smul 2 K) D) (smul 0.2 (e 7));
         H = vadd (smul 0.5 Y) (smul (if data_drift then 1.0 else 0.1) (e 8))
     in [C, A, K, X, F, D, G, Y, H])"

section \<open>Concrete instances for evaluation\<close>

text \<open>
  A generator whose state is a counter: seeding with \<open>s\<close> sets it to \<open>s\<close>, and a draw
  returns the counter and increments it. A process in which the global generator is at 0.
\<close>

definition counter_rng :: "nat generator" where
  "counter_rng = \<lparr>init_genrand = (\<lambda>s. s), gauss = (\<lambda>g. (real g, Suc g))\<rparr>"

definition process0 :: "nat process" where
  "process0 = \<lparr>np_state = 0, urandom = (\<lambda>k. 100 + k), urandom_pos = 0\<rparr>"

text \<open>
  A generator with bounded draws: they alternate between 1 and -1.
\<close>

definition bounded_rng :: "nat generator" where
  "bounded_rng = \<lparr>init_genrand = (\<lambda>s. s), gauss = (\<lambda>g. (if even g then 1 else - 1, Suc g))\<rparr>"

text \<open>
  Arguments that are immutable values: a reference is the content itself, whatever the heap.
\<close>

definition contents :: "'h \<Rightarrow> 'a \<Rightarrow> 'a" where
  "contents h a = a"




text \<open>
  A heap with the record of the calls made on an estimator, one feature table and one label
  array; every reference of type \<open>unit\<close> points to that table or that array.
\<close>

record store =
  calls :: "string list"
  table :: "real list list"
  array :: "nat list"

definition stored_labels :: "store \<Rightarrow> unit \<Rightarrow> nat list" where
  "stored_labels h y = array h"

text \<open>
  An estimator on that heap that records its calls and whose \<open>score\<close> overwrites the feature
  table with zeros.
\<close>

definition scribbling :: "(store, unit, unit, nat list) estimator" where
  "scribbling =
     \<lparr>fit = (\<lambda>X y h. (Inr (), h\<lparr>calls := calls h @ [''fit'']\<rparr>)),
      score = (\<lambda>X y h. (Inr 1, h\<lparr>calls := calls h @ [''score''],
                                  table := map (map (\<lambda>x. 0)) (table h)\<rparr>)),
      predict = (\<lambda>X h. (Inr (map (\<lambda>r. 0) (table h)), h\<lparr>calls := calls h @ [''predict'']\<rparr>))\<rparr>"

text \<open>
  A linear model on data frames that records its calls and leaves tables and arrays alone;
  its constructor records the call too. Its attributes are those of a model with one
  feature.
\<close>

definition logging_new :: "(store, unit) py" where
  "logging_new = (\<lambda>h. (Inr (), h\<lparr>calls := calls h @ [''LinearRegression'']\<rparr>))"

definition logging :: "(store, DataFrame, DataFrame, DataFrame) regressor" where
  "logging =
     \<lparr>fit = (\<lambda>X y h. (Inr (), h\<lparr>calls := calls h @ [''fit'']\<rparr>)),
      score = (\<lambda>X y h. (Inr 1, h\<lparr>calls := calls h @ [''score'']\<rparr>)),
      predict = (\<lambda>X h. (Inr X, h\<lparr>calls := calls h @ [''predict'']\<rparr>)),
      intercept = (\<lambda>h. [0]),
      coef = (\<lambda>h. [[0]])\<rparr>"

text \<open>
  A linear model on data frames whose heap is a counter of the calls of \<open>fit\<close>; its
  constructor and its other methods leave the heap alone.
\<close>

definition counting_new :: "(nat, unit) py" where
  "counting_new = ret ()"

definition counting :: "(nat, DataFrame, DataFrame, DataFrame) regressor" where
  "counting =
     \<lparr>fit = (\<lambda>X y h. (Inr (), Suc h)),
      score = (\<lambda>X y. ret 1),
      predict = (\<lambda>X. ret X),
      intercept = (\<lambda>h. [0]),
      coef = (\<lambda>h. [[0]])\<rparr>"

text \<open>
  A session on the heap with one table and one array, nothing called and nothing printed
  yet.
\<close>

definition store0 :: "store session" where
  "store0 = \<lparr>heap = \<lparr>calls = [], table = [[1]], array = [0]\<rparr>, stdout = []\<rparr>"

text \<open>A metric that is always 1, a format with two outputs, a data frame with one row.\<close>

definition unit_recall :: "nat list \<Rightarrow> nat list \<Rightarrow> error + real" where
  "unit_recall y_true y_pred = Inr 1"

definition plain :: "real \<Rightarrow> string" where
  "plain r = (if r = 1 then ''1.000'' else ''0.000'')"

definition frame1 :: DataFrame where
  "frame1 = \<lparr>columns = [''X'', ''Y''], cells = [[1, 2]]\<rparr>"

section \<open>Arrays, draws and data frames\<close>

lemma length_draws: "length (fst (draws gs k g)) = k"
proof (induction k arbitrary: g)
  case 0
  show ?case by simp
next
  case (Suc k)
  obtain x g1 where step: "gs g = (x, g1)" by (cases "gs g")
  obtain xs g2 where rest: "draws gs k g1 = (xs, g2)" by (cases "draws gs k g1")
  from Suc [of g1] rest have "length xs = k" by simp
  with step rest show ?case by simp
qed

lemma length_noise: "length (noise gs n g j) = n"
  by (simp add: noise_def length_draws)

lemma length_smul: "length (smul c v) = length v"
  by (simp add: smul_def)

lemma length_vadd: "length u = length v \<Longrightarrow> length (vadd u v) = length v"
  by (simp add: vadd_def)

lemma length_vsub: "length u = length v \<Longrightarrow> length (vsub u v) = length v"
  by (simp add: vsub_def)

lemma randn_run:
  "0 \<le> n \<Longrightarrow> np_random_randn np n w =
     (Inr (fst (draws (gauss np) (nat n) (np_state w))),
      w\<lparr>np_state := snd (draws (gauss np) (nat n) (np_state w))\<rparr>)"
  by (simp add: np_random_randn_def split: prod.splits)

lemma transpose_rows:
  assumes "xs \<noteq> []" and "\<forall>v\<in>set xs. length v = n"
  shows "transpose xs = map (\<lambda>i. map (\<lambda>v. v ! i) xs) [0..<n]"
proof -
  have "transpose xs = map (\<lambda>i. map (\<lambda>j. xs ! j ! i) [0..<length xs]) [0..<n]"
    using assms by (intro transpose_rectangle) auto
  moreover have "map (\<lambda>j. xs ! j ! i) [0..<length xs] = map (\<lambda>v. v ! i) xs" for i
    by (rule nth_equalityI) auto
  ultimately show ?thesis by simp
qed

lemma transpose_column:
  assumes "xs \<noteq> []" and "\<forall>v\<in>set xs. length v = n" and "j < length xs"
  shows "map (\<lambda>r. r ! j) (transpose xs) = xs ! j"
proof -
  have "length (xs ! j) = n" using assms by auto
  then show ?thesis
    unfolding transpose_rows[OF assms(1,2)]
    by (intro nth_equalityI) (use assms in auto)
qed

lemma transpose_row_lengths:
  assumes "xs \<noteq> []" and "\<forall>v\<in>set xs. length v = n"
  shows "list_all (\<lambda>r. length r = length xs) (transpose xs)" "length (transpose xs) = n"
  unfolding transpose_rows[OF assms] by (auto simp: list_all_iff)



lemma seq_Inl: "m s = (Inl e, s1) \<Longrightarrow> seq m f s = (Inl e, s1)"
  by (simp add: seq_def)

lemma randn_step:
  assumes "0 \<le> n"
  shows "np_random_randn np n (w\<lparr>np_state := state_after (gauss np) (nat n) j g\<rparr>) =
     (Inr (noise (gauss np) (nat n) g j),
      w\<lparr>np_state := state_after (gauss np) (nat n) (Suc j) g\<rparr>)"
  using assms by (simp add: randn_run noise_def)

lemma frame_of_columns:
  assumes "xs \<noteq> []" and "\<forall>v\<in>set xs. length v = (m::nat)" and "length names = length xs"
  shows "pd_DataFrame (T (np_vstack xs)) names s =
         (Inr \<lparr>columns = names, cells = transpose xs\<rparr>, s)"
proof -
  have "list_all (\<lambda>r. length r = length xs) (transpose xs)"
    by (rule transpose_row_lengths(1) [OF assms(1,2)])
  then show ?thesis
    using assms(3) by (simp add: pd_DataFrame_def T_def np_vstack_def ret_def)
qed

lemma equations_lengths:
  assumes "\<And>j. length (e j) = m"
  shows "\<forall>v\<in>set (equations dd cd e). length v = m"
  using assms by (simp add: equations_def Let_def length_smul length_vadd length_vsub)

lemma sample_data_run:
  assumes n: "0 \<le> n" and seed: "np_random_seed np seed w = (Inr (), w1)"
  shows "sample_data np seed n data_drift concept_drift w =
    (Inr \<lparr>columns = [''C'', ''A'', ''K'', ''X'', ''F'', ''D'', ''G'', ''Y'', ''H''],
          cells = transpose (equations data_drift concept_drift
                    (noise (gauss np) (nat n) (np_state w1)))\<rparr>,
     w1\<lparr>np_state := state_after (gauss np) (nat n) 9 (np_state w1)\<rparr>)"
proof -
  define e where "e = noise (gauss np) (nat n) (np_state w1)"
  define W where "W j = w1\<lparr>np_state := state_after (gauss np) (nat n) j (np_state w1)\<rparr>" for j
  have W0: "w1 = W 0" by (simp add: W_def)
  have step: "np_random_randn np n (W j) = (Inr (e j), W (Suc j))" for j
    unfolding W_def e_def by (rule randn_step [OF n])
  have s0: "np_random_randn np n w1 = (Inr (e 0), W (Suc 0))" using step [of 0] W0 by simp
  have s1: "np_random_randn np n (W (Suc 0)) = (Inr (e (Suc 0)), W 2)" using step [of 1] by (simp add: eval_nat_numeral)
  have s2: "np_random_randn np n (W 2) = (Inr (e 2), W 3)" using step [of 2] by (simp add: eval_nat_numeral)
  have s3: "np_random_randn np n (W 3) = (Inr (e 3), W 4)" using step [of 3] by (simp add: eval_nat_numeral)
  have s4: "np_random_randn np n (W 4) = (Inr (e 4), W 5)" using step [of 4] by (simp add: eval_nat_numeral)
  have s5: "np_random_randn np n (W 5) = (Inr (e 5), W 6)" using step [of 5] by (simp add: eval_nat_numeral)
  have s6: "np_random_randn np n (W 6) = (Inr (e 6), W 7)" using step [of 6] by (simp add: eval_nat_numeral)
  have s7: "np_random_randn np n (W 7) = (Inr (e 7), W 8)" using step [of 7] by (simp add: eval_nat_numeral)
  have s8: "np_random_randn np n (W 8) = (Inr (e 8), W 9)" using step [of 8] by (simp add: eval_nat_numeral)
  have len: "\<forall>v\<in>set (equations data_drift concept_drift e). length v = nat n"
    by (rule equations_lengths) (simp add: e_def length_noise)
  have ne: "equations data_drift concept_drift e \<noteq> []"
    by (simp add: equations_def Let_def)
  have nn: "length [''C'', ''A'', ''K'', ''X'', ''F'', ''D'', ''G'', ''Y'', ''H''] =
            length (equations data_drift concept_drift e)"
    by (simp add: equations_def Let_def)
  have "sample_data np seed n data_drift concept_drift w =
     pd_DataFrame (T (np_vstack (equations data_drift concept_drift e)))
       [''C'', ''A'', ''K'', ''X'', ''F'', ''D'', ''G'', ''Y'', ''H''] (W 9)"
    unfolding sample_data_def equations_def Let_def
    by (cases data_drift; cases concept_drift)
       (simp_all add: seq_def seed s0 s1 s2 s3 s4 s5 s6 s7 s8 ret_def)
  also note frame_of_columns [OF ne len nn]
  finally have "sample_data np seed n data_drift concept_drift w =
    (Inr \<lparr>columns = [''C'', ''A'', ''K'', ''X'', ''F'', ''D'', ''G'', ''Y'', ''H''],
          cells = transpose (equations data_drift concept_drift e)\<rparr>, W 9)" .
  then show ?thesis by (simp add: e_def W_def)
qed

lemma seed_accepted:
  assumes "accepted seed"
  shows "\<exists>w1. np_random_seed np seed w = (Inr (), w1) \<and> np_state w1 = seeded np seed w"
  using assms by (cases seed) (simp_all add: np_random_seed_def accepted_def seeded_def)

lemma seed_rejected:
  assumes "\<not> accepted seed"
  shows "np_random_seed np seed w = (Inl ValueError, w)"
  using assms by (cases seed) (simp_all add: np_random_seed_def accepted_def raise_def)

lemma sample_data_bad_seed:
  assumes "\<not> accepted seed"
  shows "sample_data np seed n data_drift concept_drift w = (Inl ValueError, w)"
  unfolding sample_data_def by (rule seq_Inl [OF seed_rejected [OF assms]])

lemma sample_data_negative:
  assumes "n < 0" and "np_random_seed np seed w = (Inr (), w1)"
  shows "sample_data np seed n data_drift concept_drift w = (Inl ValueError, w1)"
proof -
  have "np_random_randn np n w1 = (Inl ValueError, w1)"
    using assms(1) by (simp add: np_random_randn_def raise_def)
  then show ?thesis
    unfolding sample_data_def by (simp add: seq_def assms(2))
qed

lemma getitem_columns:
  assumes "\<forall>v\<in>set xs. length v = (m::nat)" and "length xs = 9"
  defines "df \<equiv> \<lparr>columns = names9, cells = transpose xs\<rparr>"
  shows "getitem df ''C'' = Inr (xs ! 0)" "getitem df ''A'' = Inr (xs ! 1)"
    "getitem df ''K'' = Inr (xs ! 2)" "getitem df ''X'' = Inr (xs ! 3)"
    "getitem df ''F'' = Inr (xs ! 4)" "getitem df ''D'' = Inr (xs ! 5)"
    "getitem df ''G'' = Inr (xs ! 6)" "getitem df ''Y'' = Inr (xs ! 7)"
    "getitem df ''H'' = Inr (xs ! 8)"
proof -
  have ne: "xs \<noteq> []" using assms(2) by auto
  have col: "map (\<lambda>r. r ! j) (transpose xs) = xs ! j" if "j < 9" for j
    using that assms(2) by (intro transpose_column [OF ne assms(1)]) simp
  show "getitem df ''C'' = Inr (xs ! 0)" "getitem df ''A'' = Inr (xs ! 1)"
    "getitem df ''K'' = Inr (xs ! 2)" "getitem df ''X'' = Inr (xs ! 3)"
    "getitem df ''F'' = Inr (xs ! 4)" "getitem df ''D'' = Inr (xs ! 5)"
    "getitem df ''G'' = Inr (xs ! 6)" "getitem df ''Y'' = Inr (xs ! 7)"
    "getitem df ''H'' = Inr (xs ! 8)"
    using col [of 0] col [of 1] col [of 2] col [of 3] col [of 4] col [of 5] col [of 6]
      col [of 7] col [of 8]
    by (simp_all add: getitem_def df_def names9_def eval_nat_numeral)
qed


lemma sample_data_ok:
  assumes "0 \<le> n" and "accepted seed"
  shows "\<exists>w1. sample_data np seed n data_drift concept_drift w =
    (Inr \<lparr>columns = names9,
          cells = transpose (equations data_drift concept_drift
                    (noise (gauss np) (nat n) (seeded np seed w)))\<rparr>, w1)"
proof -
  obtain w1 where "np_random_seed np seed w = (Inr (), w1)" and "np_state w1 = seeded np seed w"
    using seed_accepted [OF assms(2)] by blast
  then show ?thesis
    using sample_data_run [OF assms(1), of np seed w w1 data_drift concept_drift]
    by (simp add: names9_def)
qed

lemma equations_length: "length (equations data_drift concept_drift e) = 9"
  by (simp add: equations_def Let_def)

lemma equations_noise_lengths:
  "\<forall>v\<in>set (equations data_drift concept_drift (noise gs m g)). length v = m"
  by (rule equations_lengths) (simp add: length_noise)

lemma sample_data_cases:
  "(\<not> accepted seed \<and> fst (sample_data np seed n data_drift concept_drift w) = Inl ValueError)
   \<or> (accepted seed \<and> n < 0 \<and>
        fst (sample_data np seed n data_drift concept_drift w) = Inl ValueError)
   \<or> (accepted seed \<and> 0 \<le> n \<and>
        fst (sample_data np seed n data_drift concept_drift w) =
          Inr \<lparr>columns = names9,
               cells = transpose (equations data_drift concept_drift
                         (noise (gauss np) (nat n) (seeded np seed w)))\<rparr>)"
proof (cases "accepted seed")
  case False
  then show ?thesis by (simp add: sample_data_bad_seed)
next
  case True
  show ?thesis
  proof (cases "n < 0")
    case neg: True
    obtain w1 where "np_random_seed np seed w = (Inr (), w1)"
      using seed_accepted [OF True] by blast
    from sample_data_negative [OF neg this] True neg show ?thesis by simp
  next
    case False
    then have "0 \<le> n" by simp
    from sample_data_ok [OF this True, of np data_drift concept_drift w] True this
    show ?thesis by auto
  qed
qed

lemma column_of_run:
  assumes "r = Inr \<lparr>columns = names9, cells = transpose (equations dd cd (noise gs m g))\<rparr>"
  shows "column_of r ''C'' = Inr (equations dd cd (noise gs m g) ! 0)"
    "column_of r ''A'' = Inr (equations dd cd (noise gs m g) ! 1)"
    "column_of r ''K'' = Inr (equations dd cd (noise gs m g) ! 2)"
    "column_of r ''X'' = Inr (equations dd cd (noise gs m g) ! 3)"
    "column_of r ''F'' = Inr (equations dd cd (noise gs m g) ! 4)"
    "column_of r ''D'' = Inr (equations dd cd (noise gs m g) ! 5)"
    "column_of r ''G'' = Inr (equations dd cd (noise gs m g) ! 6)"
    "column_of r ''Y'' = Inr (equations dd cd (noise gs m g) ! 7)"
    "column_of r ''H'' = Inr (equations dd cd (noise gs m g) ! 8)"
  unfolding assms column_of_def
  by (simp_all add: getitem_columns [OF equations_noise_lengths equations_length])

section \<open>Properties of \<open>sample_data\<close>\<close>

text \<open>
  C1. Reproducibility. With an integer seed \<open>s\<close>, the outcome of \<open>sample_data\<close> (the
  returned table, or the exception when the seed or the row count is rejected) is the same
  for the same \<open>s\<close>, \<open>n\<close>, \<open>data_drift\<close> and \<open>concept_drift\<close>, whatever the state of the
  process before the call: two calls with the same arguments return identical tables.
\<close>

theorem sample_data_reproducible:
  "fst (sample_data np (Some s) n data_drift concept_drift w) =
   fst (sample_data np (Some s) n data_drift concept_drift w')"
  using sample_data_cases [of "Some s" np n data_drift concept_drift w]
    sample_data_cases [of "Some s" np n data_drift concept_drift w']
  by (auto simp: seeded_def)

text \<open>
  C10. The columns C, A and K do not depend on the drift flags: for the same seed, row
  count and process state, two calls that differ only in \<open>data_drift\<close> and
  \<open>concept_drift\<close> return the same three columns (or raise the same exception).
\<close>

theorem early_columns_ignore_flags:
  "column_of (fst (sample_data np seed n data_drift concept_drift w)) ''C'' =
   column_of (fst (sample_data np seed n data_drift' concept_drift' w)) ''C'' \<and>
   column_of (fst (sample_data np seed n data_drift concept_drift w)) ''A'' =
   column_of (fst (sample_data np seed n data_drift' concept_drift' w)) ''A'' \<and>
   column_of (fst (sample_data np seed n data_drift concept_drift w)) ''K'' =
   column_of (fst (sample_data np seed n data_drift' concept_drift' w)) ''K''"
proof -
  have early: "equations dd cd e ! 0 = equations dd' cd' e ! 0"
    "equations dd cd e ! 1 = equations dd' cd' e ! 1"
    "equations dd cd e ! 2 = equations dd' cd' e ! 2" for dd cd dd' cd' e
    by (simp_all add: equations_def Let_def)
  consider (bad) "fst (sample_data np seed n data_drift concept_drift w) = Inl ValueError"
      "fst (sample_data np seed n data_drift' concept_drift' w) = Inl ValueError"
    | (ok) "fst (sample_data np seed n data_drift concept_drift w) =
          Inr \<lparr>columns = names9,
               cells = transpose (equations data_drift concept_drift
                         (noise (gauss np) (nat n) (seeded np seed w)))\<rparr>"
       "fst (sample_data np seed n data_drift' concept_drift' w) =
          Inr \<lparr>columns = names9,
               cells = transpose (equations data_drift' concept_drift'
                         (noise (gauss np) (nat n) (seeded np seed w)))\<rparr>"
    using sample_data_cases [of seed np n data_drift concept_drift w]
      sample_data_cases [of seed np n data_drift' concept_drift' w]
    by auto
  then show ?thesis
  proof cases
    case bad
    then show ?thesis by (simp add: column_of_def)
  next
    case ok
    show ?thesis
      unfolding column_of_run(1-3) [OF ok(1)] column_of_run(1-3) [OF ok(2)]
      using early by simp
  qed
qed

lemma draws_add:
  "draws gs (a + b) g =
     (fst (draws gs a g) @ fst (draws gs b (snd (draws gs a g))),
      snd (draws gs b (snd (draws gs a g))))"
proof (induction a arbitrary: g)
  case 0
  show ?case by simp
next
  case (Suc a)
  obtain x g1 where step: "gs g = (x, g1)" by (cases "gs g")
  show ?case using Suc [of g1] step by (simp split: prod.splits)
qed

lemma state_after_draws: "state_after gs n j g = snd (draws gs (j * n) g)"
proof (induction j)
  case 0
  show ?case by simp
next
  case (Suc j)
  have "Suc j * n = j * n + n" by simp
  then have "draws gs (Suc j * n) g = draws gs (j * n + n) g" by (rule arg_cong)
  then show ?case using Suc unfolding draws_add by simp
qed

lemma noise_block:
  assumes "j < k"
  shows "noise gs n g j = take n (drop (j * n) (fst (draws gs (k * n) g)))"
proof -
  obtain r where k: "k = j + Suc r" using assms less_iff_Suc_add by auto
  have "k * n = j * n + (n + r * n)" by (simp add: k algebra_simps)
  then have "fst (draws gs (k * n) g) =
      fst (draws gs (j * n) g) @ (noise gs n g j @
        fst (draws gs (r * n) (snd (draws gs n (state_after gs n j g)))))"
    by (simp add: draws_add noise_def state_after_draws)
  then show ?thesis by (simp add: length_draws length_noise)
qed

text \<open>
  C6, as amended. \<open>sample_data\<close> does not check \<open>n\<close> itself. For every negative \<open>n\<close> the
  call fails with \<open>ValueError\<close> (raised by numpy for a negative dimension, or before that
  for a rejected seed). For \<open>n = 0\<close> and an accepted seed it does not fail: it returns the
  table with the nine columns and no row. The claim as stated, failure for every
  \<open>n \<le> 0\<close>, fails at \<open>n = 0\<close>.
\<close>

theorem sample_data_nonpositive:
  "(n < 0 \<longrightarrow> fst (sample_data np seed n data_drift concept_drift w) = Inl ValueError) \<and>
   (n = 0 \<and> accepted seed \<longrightarrow>
      fst (sample_data np seed n data_drift concept_drift w) =
        Inr \<lparr>columns = [''C'', ''A'', ''K'', ''X'', ''F'', ''D'', ''G'', ''Y'', ''H''],
             cells = []\<rparr>)"
proof (intro conjI impI)
  assume "n < 0"
  then show "fst (sample_data np seed n data_drift concept_drift w) = Inl ValueError"
    using sample_data_cases [of seed np n data_drift concept_drift w] by auto
next
  assume a: "n = 0 \<and> accepted seed"
  define xs where "xs = equations data_drift concept_drift
                          (noise (gauss np) (nat n) (seeded np seed w))"
  have run: "fst (sample_data np seed n data_drift concept_drift w) =
      Inr \<lparr>columns = names9, cells = transpose xs\<rparr>"
    using sample_data_cases [of seed np n data_drift concept_drift w] a by (auto simp: xs_def)
  have ne: "xs \<noteq> []"
    by (simp add: xs_def equations_def Let_def)
  have len: "\<forall>v\<in>set xs. length v = nat n"
    unfolding xs_def by (rule equations_noise_lengths)
  have "length (transpose xs) = 0"
    using transpose_row_lengths(2) [OF ne len] a by simp
  then show "fst (sample_data np seed n data_drift concept_drift w) =
        Inr \<lparr>columns = [''C'', ''A'', ''K'', ''X'', ''F'', ''D'', ''G'', ''Y'', ''H''],
             cells = []\<rparr>"
    using run by (simp add: names9_def)
qed

theorem sample_data_nonpositive_witness:
  "(- 3::int) < 0 \<and>
   fst (sample_data counter_rng (Some 5) (- 3) False True process0) = Inl ValueError \<and>
   (0::int) = 0 \<and> accepted None \<and>
   fst (sample_data counter_rng None 0 False True process0) =
     Inr \<lparr>columns = [''C'', ''A'', ''K'', ''X'', ''F'', ''D'', ''G'', ''Y'', ''H''], cells = []\<rparr>"
proof -
  have neg: "(- 3::int) < 0" and zero: "(0::int) = 0 \<and> accepted None"
    by (simp_all add: accepted_def)
  show ?thesis
    using neg zero sample_data_nonpositive [of "- 3" counter_rng "Some 5" False True process0]
      sample_data_nonpositive [of 0 counter_rng None False True process0]
    by blast
qed

theorem sample_data_nonpositive_counterexample:
  "fst (sample_data counter_rng (Some 1) 0 False False process0) =
     Inr \<lparr>columns = [''C'', ''A'', ''K'', ''X'', ''F'', ''D'', ''G'', ''Y'', ''H''], cells = []\<rparr>"
  by (simp add: sample_data_def seq_def np_random_seed_def np_random_randn_def ret_def
      counter_rng_def process0_def smul_def vadd_def vsub_def pd_DataFrame_def T_def
      np_vstack_def)

lemma sample_data_columns:
  assumes "0 \<le> n" and "accepted seed"
    and r: "r = fst (sample_data np seed n dd cd w)"
    and xs: "xs = equations dd cd (noise (gauss np) (nat n) (seeded np seed w))"
  shows "column_of r ''C'' = Inr (xs ! 0)" "column_of r ''A'' = Inr (xs ! 1)"
    "column_of r ''K'' = Inr (xs ! 2)" "column_of r ''X'' = Inr (xs ! 3)"
    "column_of r ''F'' = Inr (xs ! 4)" "column_of r ''D'' = Inr (xs ! 5)"
    "column_of r ''G'' = Inr (xs ! 6)" "column_of r ''Y'' = Inr (xs ! 7)"
    "column_of r ''H'' = Inr (xs ! 8)"
proof -
  have "r = Inr \<lparr>columns = names9, cells = transpose xs\<rparr>"
    using sample_data_cases [of seed np n dd cd w] assms(1,2) by (auto simp: r xs)
  from column_of_run [OF this [unfolded xs]]
  show "column_of r ''C'' = Inr (xs ! 0)" "column_of r ''A'' = Inr (xs ! 1)"
    "column_of r ''K'' = Inr (xs ! 2)" "column_of r ''X'' = Inr (xs ! 3)"
    "column_of r ''F'' = Inr (xs ! 4)" "column_of r ''D'' = Inr (xs ! 5)"
    "column_of r ''G'' = Inr (xs ! 6)" "column_of r ''Y'' = Inr (xs ! 7)"
    "column_of r ''H'' = Inr (xs ! 8)"
    by (simp_all add: xs)
qed

lemma noise_blocks9:
  "noise gs m g 0 = take m (drop (0 * m) (fst (draws gs (9 * m) g)))"
  "noise gs m g (Suc 0) = take m (drop (1 * m) (fst (draws gs (9 * m) g)))"
  "noise gs m g 2 = take m (drop (2 * m) (fst (draws gs (9 * m) g)))"
  "noise gs m g 3 = take m (drop (3 * m) (fst (draws gs (9 * m) g)))"
  "noise gs m g 4 = take m (drop (4 * m) (fst (draws gs (9 * m) g)))"
  "noise gs m g 5 = take m (drop (5 * m) (fst (draws gs (9 * m) g)))"
  "noise gs m g 6 = take m (drop (6 * m) (fst (draws gs (9 * m) g)))"
  "noise gs m g 7 = take m (drop (7 * m) (fst (draws gs (9 * m) g)))"
  "noise gs m g 8 = take m (drop (8 * m) (fst (draws gs (9 * m) g)))"
  using noise_block [of 0 9 gs m g] noise_block [of 1 9 gs m g] noise_block [of 2 9 gs m g]
    noise_block [of 3 9 gs m g] noise_block [of 4 9 gs m g] noise_block [of 5 9 gs m g]
    noise_block [of 6 9 gs m g] noise_block [of 7 9 gs m g] noise_block [of 8 9 gs m g]
  by simp_all

text \<open>
  C5. Causal order. A run that returns a table makes \<open>9 * n\<close> draws, one stream cut into nine
  consecutive arrays of \<open>n\<close> draws, the \<open>j\<close>-th of them used by the \<open>j\<close>-th column only. In
  the order C, A, K, X, F, D, G, Y, H each column is a combination of columns before it in
  that order and of its own noise array: C of none, A of none, K of A, X of C and A, F of X,
  D of X, G of D, Y of K and D, H of Y.
\<close>

theorem causal_order:
  assumes "0 \<le> n" and "accepted seed"
  shows "let m = nat n;
             stream = fst (draws (gauss np) (9 * m) (seeded np seed w));
             e = (\<lambda>j. take m (drop (j * m) stream));
             run = fst (sample_data np seed n data_drift concept_drift w);
             C = e 0;
             A = smul 0.8 (e 1);
             K = vadd A (smul 0.1 (e 2));
             X = vadd (vsub C (smul 2 A)) (smul (if data_drift then 2.0 else 0.2) (e 3));
             F = vadd (smul 3 X) (smul 0.8 (e 4));
             D = vadd (smul (if concept_drift then 2 else - 2) X) (smul 0.5 (e 5));
             G = vadd D (smul 0.5 (e 6));
             Y = vadd (vsub (smul 2 K) D) (smul 0.2 (e 7));
             H = vadd (smul 0.5 Y) (smul (if data_drift then 1.0 else 0.1) (e 8))
         in column_of run ''C'' = Inr C \<and> column_of run ''A'' = Inr A \<and>
            column_of run ''K'' = Inr K \<and> column_of run ''X'' = Inr X \<and>
            column_of run ''F'' = Inr F \<and> column_of run ''D'' = Inr D \<and>
            column_of run ''G'' = Inr G \<and> column_of run ''Y'' = Inr Y \<and>
            column_of run ''H'' = Inr H"
  unfolding Let_def
  by (simp add: sample_data_columns [OF assms refl refl] equations_def Let_def noise_blocks9)

theorem causal_order_witness:
  "0 \<le> (3::int) \<and> accepted None \<and>
   (let m = nat 3;
             stream = fst (draws (gauss counter_rng) (9 * m) (seeded counter_rng None process0));
             e = (\<lambda>j. take m (drop (j * m) stream));
             run = fst (sample_data counter_rng None 3 True True process0);
             C = e 0;
             A = smul 0.8 (e 1);
             K = vadd A (smul 0.1 (e 2));
             X = vadd (vsub C (smul 2 A)) (smul (if True then 2.0 else 0.2) (e 3));
             F = vadd (smul 3 X) (smul 0.8 (e 4));
             D = vadd (smul (if True then 2 else - 2) X) (smul 0.5 (e 5));
             G = vadd D (smul 0.5 (e 6));
             Y = vadd (vsub (smul 2 K) D) (smul 0.2 (e 7));
             H = vadd (smul 0.5 Y) (smul (if True then 1.0 else 0.1) (e 8))
         in column_of run ''C'' = Inr C \<and> column_of run ''A'' = Inr A \<and>
            column_of run ''K'' = Inr K \<and> column_of run ''X'' = Inr X \<and>
            column_of run ''F'' = Inr F \<and> column_of run ''D'' = Inr D \<and>
            column_of run ''G'' = Inr G \<and> column_of run ''Y'' = Inr Y \<and>
            column_of run ''H'' = Inr H)"
proof -
  have h: "0 \<le> (3::int)" "accepted None" by (simp_all add: accepted_def)
  from h causal_order [OF h, of counter_rng process0 True True]
  show ?thesis by blast
qed

section \<open>Properties of \<open>eval_clf\<close> and \<open>test_model\<close>\<close>








lemma seq_keeps:
  assumes "\<And>w. obs (heap (snd (m w))) = obs (heap w)"
    and "\<And>a w. obs (heap (snd (f a w))) = obs (heap w)"
  shows "obs (heap (snd (seq m f w))) = obs (heap w)"
proof (cases "m w")
  case (Pair r w1)
  then have "obs (heap w1) = obs (heap w)" using assms(1) [of w] by simp
  then show ?thesis using Pair assms(2) by (cases r) (simp_all add: seq_def)
qed

lemma call_keeps:
  assumes "\<And>h. obs (snd (method h)) = obs h"
  shows "obs (heap (snd (call method w))) = obs (heap w)"
  using assms [of "heap w"] by (cases "method (heap w)") (simp add: call_def)

lemma print_keeps: "obs (heap (snd (print line w))) = obs (heap w)"
  by (simp add: print_def)

lemma metric_keeps: "obs (snd (balanced_accuracy_score labels mean_recall y_true y_pred h)) = obs h"
  by (simp add: balanced_accuracy_score_def)

lemma getitems_state: "snd (getitems df names s) = s"
  by (simp add: getitems_def ret_def raise_def split: sum.splits)

lemma getitems_any: "getitems df names s = (r, s) \<Longrightarrow> getitems df names s1 = (r, s1)"
  by (auto simp: getitems_def ret_def raise_def split: sum.splits)

lemma item_state: "snd (item xs i s) = s"
  by (simp add: item_def ret_def raise_def)

lemma terms_state: "snd (terms fmt3 coef_rows input_vars is s) = s"
proof (induction "is" arbitrary: s)
  case Nil
  show ?case by (simp add: ret_def)
next
  case (Cons i "is")
  show ?case
    using Cons [of s]
    by (auto simp: seq_def item_def ret_def raise_def split: prod.splits sum.splits)
qed

lemma eval_clf_frame:
  assumes "\<And>X y h. obs (snd (score clf X y h)) = obs h"
    and "\<And>X h. obs (snd (predict clf X h)) = obs h"
  shows "obs (heap (snd (eval_clf labels mean_recall fmt3 clf X_train y_train X_test y_test w)))
           = obs (heap w)"
  unfolding eval_clf_def
  by (intro seq_keeps [where obs = obs] call_keeps [where obs = obs] print_keeps
      metric_keeps assms)

lemma test_model_frame:
  assumes "\<And>h. obs (snd (LinearRegression h)) = obs h"
    and "\<And>X y h. obs (snd (fit lm X y h)) = obs h"
    and "\<And>X y h. obs (snd (score lm X y h)) = obs h"
  shows "obs (heap (snd (test_model frame LinearRegression lm fmt3 input_vars df_train df_test w)))
           = obs (heap w)"
  unfolding test_model_def
  by (intro seq_keeps [where obs = obs] call_keeps [where obs = obs] print_keeps assms)
     (simp_all add: getitems_state item_state terms_state)


text \<open>
  C8, as amended. \<open>eval_clf\<close> never fits or refits: its behaviour is the same whatever the
  \<open>fit\<close> method of the model is. By itself it changes neither the model nor the feature
  tables nor the label arrays: every observation \<open>obs\<close> of the heap (the state of the
  model, the content of a table or of an array) that \<open>score\<close> and \<open>predict\<close> leave unchanged
  is unchanged after the call. \<open>test_model\<close> does fit: it makes a new estimator and calls
  \<open>fit\<close> on it with the selected training columns and the column Y, and when those
  columns exist and \<open>score\<close> leaves the heap as it is, the heap at the end of the call is
  the one that this \<open>fit\<close> left; every observation of the heap, such as the content of its tables, that the
  constructor, \<open>fit\<close> and \<open>score\<close> leave unchanged is unchanged after the call. The claim as
  stated fails in two ways: \<open>test_model\<close> invokes \<open>fit\<close>, and after \<open>eval_clf\<close> with a
  model whose \<open>score\<close> writes to the feature table the table has changed.
\<close>

theorem eval_clf_read_only:
  "eval_clf labels mean_recall fmt3 (clf\<lparr>fit := f\<rparr>) X_train y_train X_test y_test =
     eval_clf labels mean_recall fmt3 clf X_train y_train X_test y_test \<and>
   ((\<forall>X y h. obs (snd (score clf X y h)) = obs h) \<and>
    (\<forall>X h. obs (snd (predict clf X h)) = obs h) \<longrightarrow>
      obs (heap (snd (eval_clf labels mean_recall fmt3 clf X_train y_train X_test y_test w)))
        = obs (heap w)) \<and>
   ((\<forall>h. obs' (snd (LinearRegression h)) = obs' h) \<and>
    (\<forall>X y h. obs' (snd (fit lm X y h)) = obs' h) \<and>
    (\<forall>X y h. obs' (snd (score lm X y h)) = obs' h) \<longrightarrow>
      obs' (heap (snd (test_model frame LinearRegression lm fmt3 input_vars df_train df_test v)))
        = obs' (heap v)) \<and>
   ((\<forall>X y h. snd (score lm X y h) = h) \<and>
    LinearRegression (heap v) = (Inr (), h1) \<and>
    getitems (frame h1 df_train) input_vars v = (Inr X1, v) \<and>
    getitems (frame h1 df_train) [''Y''] v = (Inr Y1, v) \<longrightarrow>
      heap (snd (test_model frame LinearRegression lm fmt3 input_vars df_train df_test
                   (v :: 'k session)))
        = snd (fit lm X1 Y1 h1))"
proof (intro conjI impI)
  show "eval_clf labels mean_recall fmt3 (clf\<lparr>fit := f\<rparr>) X_train y_train X_test y_test =
     eval_clf labels mean_recall fmt3 clf X_train y_train X_test y_test"
    by (simp add: eval_clf_def)
next
  assume "(\<forall>X y h. obs (snd (score clf X y h)) = obs h) \<and>
    (\<forall>X h. obs (snd (predict clf X h)) = obs h)"
  then show "obs (heap (snd (eval_clf labels mean_recall fmt3 clf X_train y_train X_test
      y_test w))) = obs (heap w)"
    by (intro eval_clf_frame) simp_all
next
  assume "(\<forall>h. obs' (snd (LinearRegression h)) = obs' h) \<and>
    (\<forall>X y h. obs' (snd (fit lm X y h)) = obs' h) \<and>
    (\<forall>X y h. obs' (snd (score lm X y h)) = obs' h)"
  then show "obs' (heap (snd (test_model frame LinearRegression lm fmt3 input_vars df_train
      df_test v))) = obs' (heap v)"
    by (intro test_model_frame) simp_all
next
  assume a: "(\<forall>X y h. snd (score lm X y h) = h) \<and>
    LinearRegression (heap v) = (Inr (), h1) \<and>
    getitems (frame h1 df_train) input_vars v = (Inr X1, v) \<and>
    getitems (frame h1 df_train) [''Y''] v = (Inr Y1, v)"
  have ro: "snd (score lm X y h) = h" for X y h using a by blast
  have gx: "getitems (frame h1 df_train) input_vars s = (Inr X1, s)"
    and gy: "getitems (frame h1 df_train) [''Y''] s = (Inr Y1, s)" for s :: "'k session"
    using a getitems_any [of "frame h1 df_train" input_vars v "Inr X1" s]
      getitems_any [of "frame h1 df_train" "[''Y'']" v "Inr Y1" s] by simp_all
  obtain r h2 where f: "fit lm X1 Y1 h1 = (r, h2)" by (cases "fit lm X1 Y1 h1")
  have rest: "heap (snd (
       seq (\<lambda>w. getitems (frame (heap w) df_train) input_vars w) (\<lambda>X2.
       seq (\<lambda>w. getitems (frame (heap w) df_train) [''Y''] w) (\<lambda>Y2.
       seq (call (score lm X2 Y2)) (\<lambda>r2_train.
       seq (\<lambda>w. getitems (frame (heap w) df_test) input_vars w) (\<lambda>X3.
       seq (\<lambda>w. getitems (frame (heap w) df_test) [''Y''] w) (\<lambda>Y3.
       seq (call (score lm X3 Y3)) (\<lambda>r2_test.
       seq (\<lambda>w. item (intercept lm (heap w)) 0 w) (\<lambda>b.
       seq (\<lambda>w. terms fmt3 (coef lm (heap w)) input_vars [0..<length input_vars] w) (\<lambda>ts.
       print (''R^2 (train): '' @ fmt3 r2_train @ ''; (test): '' @ fmt3 r2_test @
              '' => Y ~ '' @ fmt3 b @ '' + '' @ join '' + '' ts))))))))) s)) = heap s"
    for s :: "'k session"
    by (intro seq_keeps [where obs = "\<lambda>h. h"] call_keeps [where obs = "\<lambda>h. h"] print_keeps ro)
       (simp_all add: getitems_state item_state terms_state)
  show "heap (snd (test_model frame LinearRegression lm fmt3 input_vars df_train df_test v))
        = snd (fit lm X1 Y1 h1)"
    unfolding test_model_def
    using rest [of "v\<lparr>heap := h2\<rparr>"] f a
    by (cases r) (simp_all add: seq_def gx gy call_def)
qed


theorem eval_clf_read_only_witness:
  "(\<forall>X y h. array (snd (score scribbling X y h)) = array h) \<and>
   (\<forall>X h. array (snd (predict scribbling X h)) = array h) \<and>
   array (heap (snd (eval_clf stored_labels unit_recall plain scribbling () () () () store0)))
     = array (heap store0) \<and>
   (\<forall>h. table (snd (logging_new h)) = table h) \<and>
   (\<forall>X y h. table (snd (fit logging X y h)) = table h) \<and>
   (\<forall>X y h. table (snd (score logging X y h)) = table h) \<and>
   table (heap (snd (test_model contents logging_new logging plain [''X''] frame1 frame1 store0)))
     = table (heap store0) \<and>
   (\<forall>X y h. snd (score counting X y h) = h) \<and>
   counting_new (heap \<lparr>heap = 5, stdout = []\<rparr>) = (Inr (), 5) \<and>
   getitems (contents (5::nat) frame1) [''X''] \<lparr>heap = 5::nat, stdout = []\<rparr> =
     (Inr \<lparr>columns = [''X''], cells = [[1]]\<rparr>, \<lparr>heap = 5, stdout = []\<rparr>) \<and>
   getitems (contents (5::nat) frame1) [''Y''] \<lparr>heap = 5::nat, stdout = []\<rparr> =
     (Inr \<lparr>columns = [''Y''], cells = [[2]]\<rparr>, \<lparr>heap = 5, stdout = []\<rparr>) \<and>
   heap (snd (test_model contents counting_new counting plain [''X''] frame1 frame1
                \<lparr>heap = 5, stdout = []\<rparr>)) =
     snd (fit counting \<lparr>columns = [''X''], cells = [[1]]\<rparr> \<lparr>columns = [''Y''], cells = [[2]]\<rparr> 5)"
proof -
  have a: "(\<forall>X y h. array (snd (score scribbling X y h)) = array h) \<and>
     (\<forall>X h. array (snd (predict scribbling X h)) = array h)"
    by (simp add: scribbling_def)
  have b: "(\<forall>h. table (snd (logging_new h)) = table h) \<and>
     (\<forall>X y h. table (snd (fit logging X y h)) = table h) \<and>
     (\<forall>X y h. table (snd (score logging X y h)) = table h)"
    by (simp add: logging_def logging_new_def)
  have c: "(\<forall>X y h. snd (score counting X y h) = h) \<and>
     counting_new (heap \<lparr>heap = 5, stdout = []\<rparr>) = (Inr (), 5) \<and>
     getitems (contents (5::nat) frame1) [''X''] \<lparr>heap = 5::nat, stdout = []\<rparr> =
       (Inr \<lparr>columns = [''X''], cells = [[1]]\<rparr>, \<lparr>heap = 5, stdout = []\<rparr>) \<and>
     getitems (contents (5::nat) frame1) [''Y''] \<lparr>heap = 5::nat, stdout = []\<rparr> =
       (Inr \<lparr>columns = [''Y''], cells = [[2]]\<rparr>, \<lparr>heap = 5, stdout = []\<rparr>)"
    by (simp add: counting_def counting_new_def ret_def getitems_def frame1_def contents_def)
  note t1 = eval_clf_read_only [where clf = scribbling and obs = array
      and labels = stored_labels and mean_recall = unit_recall and ?fmt3.0 = plain
      and X_train = "()" and y_train = "()" and X_test = "()" and y_test = "()" and w = store0
      and obs' = table and LinearRegression = logging_new and lm = logging
      and frame = contents and input_vars = "[''X'']" and df_train = frame1
      and df_test = frame1 and v = store0]
  note t2 = eval_clf_read_only [where lm = counting and LinearRegression = counting_new
      and frame = contents and ?fmt3.0 = plain and input_vars = "[''X'']"
      and df_train = frame1 and df_test = frame1 and v = "\<lparr>heap = 5, stdout = []\<rparr>"
      and ?h1.0 = 5 and ?X1.0 = "\<lparr>columns = [''X''], cells = [[1]]\<rparr>"
      and ?Y1.0 = "\<lparr>columns = [''Y''], cells = [[2]]\<rparr>"]
  note p2 = t1 [THEN conjunct2, THEN conjunct1, THEN mp, OF a]
  note p3 = t1 [THEN conjunct2, THEN conjunct2, THEN conjunct1, THEN mp, OF b]
  note p4 = t2 [THEN conjunct2, THEN conjunct2, THEN conjunct2, THEN mp, OF c]
  show ?thesis using a b c p2 p3 p4 by blast
qed

theorem harness_read_only_counterexample:
  "calls (heap (snd (test_model contents logging_new logging plain [''X''] frame1 frame1 store0)))
     = [''LinearRegression'', ''fit'', ''score'', ''score''] \<and>
   table (heap store0) = [[1]] \<and>
   table (heap (snd (eval_clf stored_labels unit_recall plain scribbling () () () () store0)))
     = [[0]]"
  by (simp add: test_model_def eval_clf_def seq_def call_def print_def logging_def
      logging_new_def scribbling_def store0_def getitems_def frame1_def contents_def ret_def
      item_def balanced_accuracy_score_def stored_labels_def unit_recall_def)

section \<open>Effects on state\<close>





section \<open>The columns cell by cell\<close>

lemma nth_smul: "i < length v \<Longrightarrow> smul c v ! i = c * v ! i"
  by (simp add: smul_def)

lemma nth_vadd: "i < length u \<Longrightarrow> i < length v \<Longrightarrow> vadd u v ! i = u ! i + v ! i"
  by (simp add: vadd_def)

lemma nth_vsub: "i < length u \<Longrightarrow> i < length v \<Longrightarrow> vsub u v ! i = u ! i - v ! i"
  by (simp add: vsub_def)

lemma length_vadd_min: "length (vadd u v) = min (length u) (length v)"
  by (simp add: vadd_def)

lemma length_vsub_min: "length (vsub u v) = min (length u) (length v)"
  by (simp add: vsub_def)

lemma list_eq_mapI:
  assumes "length xs = m" and "\<And>i. i < m \<Longrightarrow> xs ! i = f i"
  shows "xs = map f [0..<m]"
  using assms by (intro nth_equalityI) simp_all

lemma equations_cellwise:
  assumes len: "\<And>j. length (e j) = m"
  shows "equations dd cd e =
    (let C = (\<lambda>i. e 0 ! i);
         A = (\<lambda>i. 0.8 * e 1 ! i);
         K = (\<lambda>i. A i + 0.1 * e 2 ! i);
         X = (\<lambda>i. C i - 2 * A i + (if dd then 2.0 else 0.2) * e 3 ! i);
         F = (\<lambda>i. 3 * X i + 0.8 * e 4 ! i);
         D = (\<lambda>i. (if cd then 2 else - 2) * X i + 0.5 * e 5 ! i);
         G = (\<lambda>i. D i + 0.5 * e 6 ! i);
         Y = (\<lambda>i. 2 * K i - D i + 0.2 * e 7 ! i);
         H = (\<lambda>i. 0.5 * Y i + (if dd then 1.0 else 0.1) * e 8 ! i)
     in map (\<lambda>f. map f [0..<m]) [C, A, K, X, F, D, G, Y, H])"
  unfolding equations_def Let_def
  by (simp; intro conjI impI list_eq_mapI;
      simp add: len nth_smul nth_vadd nth_vsub length_smul length_vadd_min length_vsub_min)

text \<open>
  C3. Data drift changes the noise scale of exactly two equations. Two runs with the same
  seed, row count, process state and \<open>concept_drift\<close>, one without and one with
  \<open>data_drift\<close>, draw the same nine noise arrays \<open>e 0\<close>, ..., \<open>e 8\<close>. Row by row, the cell
  of X is the cell of C minus twice the cell of A plus the scaled cell of \<open>e 3\<close>, with the
  scale 0.2 without drift and ten times that, 2.0, with drift; the cell of H is half the
  cell of Y plus the scaled cell of \<open>e 8\<close>, with the scale 0.1 without drift and ten times
  that, 1.0, with drift. The columns C, A and K are the same in both runs, and the cells of
  F, D, G and Y are given in both runs by the same arithmetic on the cells of their parent
  columns and of their noise array.
\<close>

theorem data_drift_noise_scale:
  assumes "0 \<le> n" and "accepted seed"
  shows "let m = nat n;
             e = noise (gauss np) m (seeded np seed w);
             plain = fst (sample_data np seed n False concept_drift w);
             drift = fst (sample_data np seed n True concept_drift w);
             column = (\<lambda>f. Inr (map f [0..<m]));
             sX = 0.2;
             sH = 0.1;
             C = (\<lambda>i. e 0 ! i);
             A = (\<lambda>i. 0.8 * e 1 ! i);
             K = (\<lambda>i. A i + 0.1 * e 2 ! i);
             X0 = (\<lambda>i. C i - 2 * A i + sX * e 3 ! i);
             X1 = (\<lambda>i. C i - 2 * A i + (10 * sX) * e 3 ! i);
             F = (\<lambda>X i. 3 * X i + 0.8 * e 4 ! i);
             D = (\<lambda>X i. (if concept_drift then 2 else - 2) * X i + 0.5 * e 5 ! i);
             G = (\<lambda>D i. D i + 0.5 * e 6 ! i);
             Y = (\<lambda>D i. 2 * K i - D i + 0.2 * e 7 ! i);
             H0 = (\<lambda>Y i. 0.5 * Y i + sH * e 8 ! i);
             H1 = (\<lambda>Y i. 0.5 * Y i + (10 * sH) * e 8 ! i)
         in 10 * sX = (2.0::real) \<and> 10 * sH = (1.0::real) \<and>
            column_of plain ''C'' = column C \<and> column_of drift ''C'' = column C \<and>
            column_of plain ''A'' = column A \<and> column_of drift ''A'' = column A \<and>
            column_of plain ''K'' = column K \<and> column_of drift ''K'' = column K \<and>
            column_of plain ''X'' = column X0 \<and> column_of drift ''X'' = column X1 \<and>
            column_of plain ''F'' = column (F X0) \<and> column_of drift ''F'' = column (F X1) \<and>
            column_of plain ''D'' = column (D X0) \<and> column_of drift ''D'' = column (D X1) \<and>
            column_of plain ''G'' = column (G (D X0)) \<and>
            column_of drift ''G'' = column (G (D X1)) \<and>
            column_of plain ''Y'' = column (Y (D X0)) \<and>
            column_of drift ''Y'' = column (Y (D X1)) \<and>
            column_of plain ''H'' = column (H0 (Y (D X0))) \<and>
            column_of drift ''H'' = column (H1 (Y (D X1)))"
  unfolding Let_def
  by (simp add: sample_data_columns [OF assms refl refl]
      equations_cellwise [OF length_noise] Let_def)

theorem data_drift_noise_scale_witness:
  "0 \<le> (2::int) \<and> accepted (Some 1) \<and>
   (let m = nat 2;
             e = noise (gauss counter_rng) m (seeded counter_rng (Some 1) process0);
             plain = fst (sample_data counter_rng (Some 1) 2 False False process0);
             drift = fst (sample_data counter_rng (Some 1) 2 True False process0);
             column = (\<lambda>f. Inr (map f [0..<m]));
             sX = 0.2;
             sH = 0.1;
             C = (\<lambda>i. e 0 ! i);
             A = (\<lambda>i. 0.8 * e 1 ! i);
             K = (\<lambda>i. A i + 0.1 * e 2 ! i);
             X0 = (\<lambda>i. C i - 2 * A i + sX * e 3 ! i);
             X1 = (\<lambda>i. C i - 2 * A i + (10 * sX) * e 3 ! i);
             F = (\<lambda>X i. 3 * X i + 0.8 * e 4 ! i);
             D = (\<lambda>X i. (if False then 2 else - 2) * X i + 0.5 * e 5 ! i);
             G = (\<lambda>D i. D i + 0.5 * e 6 ! i);
             Y = (\<lambda>D i. 2 * K i - D i + 0.2 * e 7 ! i);
             H0 = (\<lambda>Y i. 0.5 * Y i + sH * e 8 ! i);
             H1 = (\<lambda>Y i. 0.5 * Y i + (10 * sH) * e 8 ! i)
         in 10 * sX = (2.0::real) \<and> 10 * sH = (1.0::real) \<and>
            column_of plain ''C'' = column C \<and> column_of drift ''C'' = column C \<and>
            column_of plain ''A'' = column A \<and> column_of drift ''A'' = column A \<and>
            column_of plain ''K'' = column K \<and> column_of drift ''K'' = column K \<and>
            column_of plain ''X'' = column X0 \<and> column_of drift ''X'' = column X1 \<and>
            column_of plain ''F'' = column (F X0) \<and> column_of drift ''F'' = column (F X1) \<and>
            column_of plain ''D'' = column (D X0) \<and> column_of drift ''D'' = column (D X1) \<and>
            column_of plain ''G'' = column (G (D X0)) \<and>
            column_of drift ''G'' = column (G (D X1)) \<and>
            column_of plain ''Y'' = column (Y (D X0)) \<and>
            column_of drift ''Y'' = column (Y (D X1)) \<and>
            column_of plain ''H'' = column (H0 (Y (D X0))) \<and>
            column_of drift ''H'' = column (H1 (Y (D X1))))"
proof -
  have h: "0 \<le> (2::int)" "accepted (Some 1)" by (simp_all add: accepted_def)
  from h data_drift_noise_scale [OF h, of counter_rng process0 False]
  show ?thesis by blast
qed

text \<open>
  C4. Concept drift flips the sign of one coefficient. Two runs with the same seed, row
  count, process state and \<open>data_drift\<close>, one without and one with \<open>concept_drift\<close>, draw
  the same noise arrays. Row by row, the cell of D is the coefficient times the cell of X
  plus 0.5 times the cell of \<open>e 5\<close>, with the coefficient \<open>-2\<close> without drift and \<open>2\<close> with
  drift. The columns C, A, K, X and F are the same in both runs, and the cells of G, Y and H
  are given in both runs by the same arithmetic on the cells of their parent columns and of
  their noise array.
\<close>

theorem concept_drift_sign_flip:
  assumes "0 \<le> n" and "accepted seed"
  shows "let m = nat n;
             e = noise (gauss np) m (seeded np seed w);
             plain = fst (sample_data np seed n data_drift False w);
             drift = fst (sample_data np seed n data_drift True w);
             column = (\<lambda>f. Inr (map f [0..<m]));
             c = - 2;
             C = (\<lambda>i. e 0 ! i);
             A = (\<lambda>i. 0.8 * e 1 ! i);
             K = (\<lambda>i. A i + 0.1 * e 2 ! i);
             X = (\<lambda>i. C i - 2 * A i + (if data_drift then 2.0 else 0.2) * e 3 ! i);
             F = (\<lambda>i. 3 * X i + 0.8 * e 4 ! i);
             D0 = (\<lambda>i. c * X i + 0.5 * e 5 ! i);
             D1 = (\<lambda>i. (- c) * X i + 0.5 * e 5 ! i);
             G = (\<lambda>D i. D i + 0.5 * e 6 ! i);
             Y = (\<lambda>D i. 2 * K i - D i + 0.2 * e 7 ! i);
             H = (\<lambda>Y i. 0.5 * Y i + (if data_drift then 1.0 else 0.1) * e 8 ! i)
         in - c = (2::real) \<and>
            column_of plain ''C'' = column C \<and> column_of drift ''C'' = column C \<and>
            column_of plain ''A'' = column A \<and> column_of drift ''A'' = column A \<and>
            column_of plain ''K'' = column K \<and> column_of drift ''K'' = column K \<and>
            column_of plain ''X'' = column X \<and> column_of drift ''X'' = column X \<and>
            column_of plain ''F'' = column F \<and> column_of drift ''F'' = column F \<and>
            column_of plain ''D'' = column D0 \<and> column_of drift ''D'' = column D1 \<and>
            column_of plain ''G'' = column (G D0) \<and> column_of drift ''G'' = column (G D1) \<and>
            column_of plain ''Y'' = column (Y D0) \<and> column_of drift ''Y'' = column (Y D1) \<and>
            column_of plain ''H'' = column (H (Y D0)) \<and>
            column_of drift ''H'' = column (H (Y D1))"
  unfolding Let_def
  by (simp add: sample_data_columns [OF assms refl refl]
      equations_cellwise [OF length_noise] Let_def)

theorem concept_drift_sign_flip_witness:
  "0 \<le> (1::int) \<and> accepted (Some 2) \<and>
   (let m = nat 1;
             e = noise (gauss counter_rng) m (seeded counter_rng (Some 2) process0);
             plain = fst (sample_data counter_rng (Some 2) 1 False False process0);
             drift = fst (sample_data counter_rng (Some 2) 1 False True process0);
             column = (\<lambda>f. Inr (map f [0..<m]));
             c = - 2;
             C = (\<lambda>i. e 0 ! i);
             A = (\<lambda>i. 0.8 * e 1 ! i);
             K = (\<lambda>i. A i + 0.1 * e 2 ! i);
             X = (\<lambda>i. C i - 2 * A i + (if False then 2.0 else 0.2) * e 3 ! i);
             F = (\<lambda>i. 3 * X i + 0.8 * e 4 ! i);
             D0 = (\<lambda>i. c * X i + 0.5 * e 5 ! i);
             D1 = (\<lambda>i. (- c) * X i + 0.5 * e 5 ! i);
             G = (\<lambda>D i. D i + 0.5 * e 6 ! i);
             Y = (\<lambda>D i. 2 * K i - D i + 0.2 * e 7 ! i);
             H = (\<lambda>Y i. 0.5 * Y i + (if False then 1.0 else 0.1) * e 8 ! i)
         in - c = (2::real) \<and>
            column_of plain ''C'' = column C \<and> column_of drift ''C'' = column C \<and>
            column_of plain ''A'' = column A \<and> column_of drift ''A'' = column A \<and>
            column_of plain ''K'' = column K \<and> column_of drift ''K'' = column K \<and>
            column_of plain ''X'' = column X \<and> column_of drift ''X'' = column X \<and>
            column_of plain ''F'' = column F \<and> column_of drift ''F'' = column F \<and>
            column_of plain ''D'' = column D0 \<and> column_of drift ''D'' = column D1 \<and>
            column_of plain ''G'' = column (G D0) \<and> column_of drift ''G'' = column (G D1) \<and>
            column_of plain ''Y'' = column (Y D0) \<and> column_of drift ''Y'' = column (Y D1) \<and>
            column_of plain ''H'' = column (H (Y D0)) \<and>
            column_of drift ''H'' = column (H (Y D1)))"
proof -
  have h: "0 \<le> (1::int)" "accepted (Some 2)" by (simp_all add: accepted_def)
  from h concept_drift_sign_flip [OF h, of counter_rng process0 False]
  show ?thesis by blast
qed

section \<open>Shape and size of the cells\<close>

lemma bounded_smul:
  assumes "list_all (\<lambda>x. \<bar>x\<bar> \<le> b) v"
  shows "list_all (\<lambda>x. \<bar>x\<bar> \<le> \<bar>c\<bar> * b) (smul c v)"
  using assms by (auto simp: smul_def list_all_iff abs_mult intro: mult_left_mono)

lemma bounded_vadd:
  assumes "list_all (\<lambda>x. \<bar>x\<bar> \<le> a) u" and "list_all (\<lambda>x. \<bar>x\<bar> \<le> b) v"
  shows "list_all (\<lambda>x. \<bar>x\<bar> \<le> a + b) (vadd u v)"
proof -
  have "\<bar>x + y\<bar> \<le> a + b" if "(x, y) \<in> set (zip u v)" for x y
  proof -
    from that have "x \<in> set u" "y \<in> set v" by (auto dest: set_zip_leftD set_zip_rightD)
    then have "\<bar>x\<bar> \<le> a" "\<bar>y\<bar> \<le> b" using assms by (auto simp: list_all_iff)
    then show ?thesis by linarith
  qed
  then show ?thesis by (auto simp: vadd_def list_all_iff)
qed

lemma bounded_vsub:
  assumes "list_all (\<lambda>x. \<bar>x\<bar> \<le> a) u" and "list_all (\<lambda>x. \<bar>x\<bar> \<le> b) v"
  shows "list_all (\<lambda>x. \<bar>x\<bar> \<le> a + b) (vsub u v)"
proof -
  have "\<bar>x - y\<bar> \<le> a + b" if "(x, y) \<in> set (zip u v)" for x y
  proof -
    from that have "x \<in> set u" "y \<in> set v" by (auto dest: set_zip_leftD set_zip_rightD)
    then have "\<bar>x\<bar> \<le> a" "\<bar>y\<bar> \<le> b" using assms by (auto simp: list_all_iff)
    then show ?thesis by linarith
  qed
  then show ?thesis by (auto simp: vsub_def list_all_iff)
qed

lemma bounded_mono:
  assumes "list_all (\<lambda>x. \<bar>x\<bar> \<le> a) v" and "a \<le> b"
  shows "list_all (\<lambda>x. \<bar>x::real\<bar> \<le> b) v"
  using assms by (auto simp: list_all_iff)

lemma draws_bounded:
  assumes "\<And>g. \<bar>fst (gs g)\<bar> \<le> B"
  shows "list_all (\<lambda>x. \<bar>x\<bar> \<le> B) (fst (draws gs k g))"
proof (induction k arbitrary: g)
  case 0
  show ?case by simp
next
  case (Suc k)
  obtain x g1 where step: "gs g = (x, g1)" by (cases "gs g")
  obtain xs g2 where rest: "draws gs k g1 = (xs, g2)" by (cases "draws gs k g1")
  from Suc [of g1] rest have "list_all (\<lambda>x. \<bar>x\<bar> \<le> B) xs" by simp
  moreover from assms [of g] step have "\<bar>x\<bar> \<le> B" by simp
  ultimately show ?case using step rest by simp
qed

lemma equations_bounded:
  assumes e: "\<And>j. list_all (\<lambda>x. \<bar>x\<bar> \<le> B) (e j)" and B: "0 \<le> B"
  shows "\<forall>v\<in>set (equations dd cd e). list_all (\<lambda>x. \<bar>x\<bar> \<le> 15 * B) v"
proof -
  define A where "A = smul 0.8 (e 1)"
  define K where "K = vadd A (smul 0.1 (e 2))"
  define X where "X = vadd (vsub (e 0) (smul 2 A)) (smul (if dd then 2.0 else 0.2) (e 3))"
  define F where "F = vadd (smul 3 X) (smul 0.8 (e 4))"
  define D where "D = vadd (smul (if cd then 2 else - 2) X) (smul 0.5 (e 5))"
  define G where "G = vadd D (smul 0.5 (e 6))"
  define Y where "Y = vadd (vsub (smul 2 K) D) (smul 0.2 (e 7))"
  define H where "H = vadd (smul 0.5 Y) (smul (if dd then 1.0 else 0.1) (e 8))"
  have bA: "list_all (\<lambda>x. \<bar>x\<bar> \<le> 0.8 * B) A"
    unfolding A_def using bounded_smul [OF e [of 1], of "0.8"] by simp
  have bK: "list_all (\<lambda>x. \<bar>x\<bar> \<le> 0.9 * B) K"
    unfolding K_def using bounded_vadd [OF bA bounded_smul [OF e [of 2], of "0.1"]]
    by (simp add: algebra_simps)
  have "list_all (\<lambda>x. \<bar>x\<bar> \<le> \<bar>if dd then 2.0 else 0.2\<bar> * B) (smul (if dd then 2.0 else 0.2) (e 3))"
    by (rule bounded_smul [OF e])
  then have n3: "list_all (\<lambda>x. \<bar>x\<bar> \<le> 2 * B) (smul (if dd then 2.0 else 0.2) (e 3))"
    by (rule bounded_mono) (use B in \<open>auto intro: mult_right_mono\<close>)
  have bX: "list_all (\<lambda>x. \<bar>x\<bar> \<le> 4.6 * B) X"
    unfolding X_def
    using bounded_vadd [OF bounded_vsub [OF e [of 0] bounded_smul [OF bA, of "2"]] n3]
    by (simp add: algebra_simps)
  have bF: "list_all (\<lambda>x. \<bar>x\<bar> \<le> 14.6 * B) F"
    unfolding F_def
    using bounded_vadd [OF bounded_smul [OF bX, of "3"] bounded_smul [OF e [of 4], of "0.8"]]
    by (simp add: algebra_simps)
  have "list_all (\<lambda>x. \<bar>x\<bar> \<le> \<bar>if cd then 2 else - 2\<bar> * (4.6 * B)) (smul (if cd then 2 else - 2) X)"
    by (rule bounded_smul [OF bX])
  then have d1: "list_all (\<lambda>x. \<bar>x\<bar> \<le> 9.2 * B) (smul (if cd then 2 else - 2) X)"
    by (rule bounded_mono) auto
  have bD: "list_all (\<lambda>x. \<bar>x\<bar> \<le> 9.7 * B) D"
    unfolding D_def using bounded_vadd [OF d1 bounded_smul [OF e [of 5], of "0.5"]]
    by (simp add: algebra_simps)
  have bG: "list_all (\<lambda>x. \<bar>x\<bar> \<le> 10.2 * B) G"
    unfolding G_def using bounded_vadd [OF bD bounded_smul [OF e [of 6], of "0.5"]]
    by (simp add: algebra_simps)
  have bY: "list_all (\<lambda>x. \<bar>x\<bar> \<le> 11.7 * B) Y"
    unfolding Y_def
    using bounded_vadd [OF bounded_vsub [OF bounded_smul [OF bK, of "2"] bD]
        bounded_smul [OF e [of 7], of "0.2"]]
    by (simp add: algebra_simps)
  have "list_all (\<lambda>x. \<bar>x\<bar> \<le> \<bar>if dd then 1.0 else 0.1\<bar> * B) (smul (if dd then 1.0 else 0.1) (e 8))"
    by (rule bounded_smul [OF e])
  then have n8: "list_all (\<lambda>x. \<bar>x\<bar> \<le> 1 * B) (smul (if dd then 1.0 else 0.1) (e 8))"
    by (rule bounded_mono) (use B in \<open>auto intro: mult_right_mono\<close>)
  have bH: "list_all (\<lambda>x. \<bar>x\<bar> \<le> 6.85 * B) H"
    unfolding H_def using bounded_vadd [OF bounded_smul [OF bY, of "0.5"] n8]
    by (simp add: algebra_simps)
  have eq: "equations dd cd e = [e 0, A, K, X, F, D, G, Y, H]"
    by (simp add: equations_def Let_def A_def K_def X_def F_def D_def G_def Y_def H_def)
  show ?thesis
    unfolding eq
    using bounded_mono [OF e [of 0], of "15 * B"] bounded_mono [OF bA, of "15 * B"]
      bounded_mono [OF bK, of "15 * B"] bounded_mono [OF bX, of "15 * B"]
      bounded_mono [OF bF, of "15 * B"] bounded_mono [OF bD, of "15 * B"]
      bounded_mono [OF bG, of "15 * B"] bounded_mono [OF bY, of "15 * B"]
      bounded_mono [OF bH, of "15 * B"] B
    by simp
qed

lemma transpose_cells:
  assumes "xs \<noteq> []" and "\<forall>v\<in>set xs. length v = n" and "\<forall>v\<in>set xs. list_all P v"
  shows "list_all (list_all P) (transpose xs)"
  unfolding transpose_rows [OF assms(1,2)]
  using assms(2,3) by (auto simp: list_all_iff)


lemma noise_bounded:
  assumes "\<And>g. \<bar>fst (gs g)\<bar> \<le> B"
  shows "list_all (\<lambda>x. \<bar>x\<bar> \<le> B) (noise gs m g j)"
  unfolding noise_def by (rule draws_bounded [OF assms])

text \<open>
  C2, as amended. For every \<open>n > 0\<close>, every setting of the drift flags and every seed that
  \<open>np.random.seed\<close> accepts (\<open>None\<close>, or an integer from 0 to \<open>2^32 - 1\<close>), \<open>sample_data\<close>
  returns a table with exactly \<open>n\<close> rows and the nine columns C, A, K, X, F, D, G, Y, H in
  that order, with no missing value, NaN or infinity: every row holds nine cells, and every
  cell is a number of magnitude at most \<open>15 * B\<close> when the draws of the generator have
  magnitude at most \<open>B\<close>. With an integer seed outside that range the call raises
  \<open>ValueError\<close> and returns no table: the claim as stated, for any seed, fails at seed
  \<open>-1\<close>.
\<close>

theorem sample_data_shape:
  "(0 < n \<and> accepted seed \<longrightarrow>
      (\<exists>df. fst (sample_data np seed n data_drift concept_drift w) = Inr df \<and>
            len df = nat n \<and>
            columns df = [''C'', ''A'', ''K'', ''X'', ''F'', ''D'', ''G'', ''Y'', ''H''] \<and>
            list_all (\<lambda>r. length r = 9) (cells df) \<and>
            ((\<forall>g. \<bar>fst (gauss np g)\<bar> \<le> B) \<longrightarrow>
               list_all (list_all (\<lambda>x. \<bar>x\<bar> \<le> 15 * B)) (cells df)))) \<and>
   (\<not> accepted seed \<longrightarrow>
      fst (sample_data np seed n data_drift concept_drift w) = Inl ValueError)"
proof (intro conjI impI)
  assume "\<not> accepted seed"
  then show "fst (sample_data np seed n data_drift concept_drift w) = Inl ValueError"
    by (simp add: sample_data_bad_seed)
next
  assume a: "0 < n \<and> accepted seed"
  define xs where "xs = equations data_drift concept_drift
                          (noise (gauss np) (nat n) (seeded np seed w))"
  have run: "fst (sample_data np seed n data_drift concept_drift w) =
      Inr \<lparr>columns = names9, cells = transpose xs\<rparr>"
    using sample_data_cases [of seed np n data_drift concept_drift w] a by (auto simp: xs_def)
  have ne: "xs \<noteq> []" and l9: "length xs = 9"
    by (simp_all add: xs_def equations_def Let_def)
  have len: "\<forall>v\<in>set xs. length v = nat n"
    unfolding xs_def by (rule equations_noise_lengths)
  have shape: "length (transpose xs) = nat n" "list_all (\<lambda>r. length r = 9) (transpose xs)"
    using transpose_row_lengths [OF ne len] l9 by simp_all
  have finite: "list_all (list_all (\<lambda>x. \<bar>x\<bar> \<le> 15 * B)) (transpose xs)"
    if b: "\<forall>g. \<bar>fst (gauss np g)\<bar> \<le> B"
  proof -
    have B: "0 \<le> B" using b by (meson abs_ge_zero order_trans)
    have "\<forall>v\<in>set xs. list_all (\<lambda>x. \<bar>x\<bar> \<le> 15 * B) v"
      unfolding xs_def
      by (rule equations_bounded [OF noise_bounded B]) (use b in blast)
    then show ?thesis by (rule transpose_cells [OF ne len])
  qed
  show "\<exists>df. fst (sample_data np seed n data_drift concept_drift w) = Inr df \<and>
            len df = nat n \<and>
            columns df = [''C'', ''A'', ''K'', ''X'', ''F'', ''D'', ''G'', ''Y'', ''H''] \<and>
            list_all (\<lambda>r. length r = 9) (cells df) \<and>
            ((\<forall>g. \<bar>fst (gauss np g)\<bar> \<le> B) \<longrightarrow>
               list_all (list_all (\<lambda>x. \<bar>x\<bar> \<le> 15 * B)) (cells df))"
    using run shape finite by (simp add: len_def names9_def)
qed

theorem sample_data_shape_witness:
  "0 < (2::int) \<and> accepted (Some 1) \<and> (\<forall>g. \<bar>fst (gauss bounded_rng g)\<bar> \<le> 1) \<and>
   (\<exists>df. fst (sample_data bounded_rng (Some 1) 2 True False process0) = Inr df \<and>
         len df = nat 2 \<and>
         columns df = [''C'', ''A'', ''K'', ''X'', ''F'', ''D'', ''G'', ''Y'', ''H''] \<and>
         list_all (\<lambda>r. length r = 9) (cells df) \<and>
         list_all (list_all (\<lambda>x. \<bar>x\<bar> \<le> 15 * 1)) (cells df)) \<and>
   \<not> accepted (Some (- 1)) \<and>
   fst (sample_data bounded_rng (Some (- 1)) 2 True False process0) = Inl ValueError"
proof -
  have ok: "0 < (2::int) \<and> accepted (Some 1)" and bad: "\<not> accepted (Some (- 1))"
    by (simp_all add: accepted_def)
  have b: "\<forall>g. \<bar>fst (gauss bounded_rng g)\<bar> \<le> 1"
    by (simp add: bounded_rng_def)
  show ?thesis
    using ok bad b
      sample_data_shape [of 2 "Some 1" bounded_rng True False process0 1]
      sample_data_shape [of 2 "Some (- 1)" bounded_rng True False process0 1]
    by blast
qed

theorem sample_data_shape_counterexample:
  "fst (sample_data counter_rng (Some (- 1)) 1 False False process0) = Inl ValueError"
  by (simp add: sample_data_def seq_def np_random_seed_def raise_def)

end
